theory Spec2Isabelle
  imports Complex_Main "HOL-Library.Word" "HOL-Library.Signed_Division"
begin

unbundle bit_operations_syntax

section \<open>Machine types, object representations and failures\<close>

text \<open>
  The decoder of \<^verbatim>\<open>src/decoder.h\<close> works on an array of 64-bit words whose first three
  words hold the header and whose remaining words hold the payload. Fixed-width unsigned
  fields are words; the C++ type \<^verbatim>\<open>int\<close> is a mathematical integer together with the
  explicit bound \<open>int_max\<close>, so that an \<^verbatim>\<open>int\<close> result that does not fit is a failure of
  the model and not a silently different number.

  Object representations are little-endian (the layout the packed header is written for):
  \<open>to_bytes n w\<close> lists the \<open>n\<close> lowest-addressed bytes of \<open>w\<close>, \<open>from_bytes\<close> reads a
  field back from its bytes. The two together are \<^verbatim>\<open>std::bit_cast\<close>.
\<close>

type_synonym u8 = "8 word"
type_synonym u16 = "16 word"
type_synonym u32 = "32 word"
type_synonym u64 = "64 word"

datatype error =
    Thrown string
  | Static_assert string
  | Ill_formed
  | Signed_overflow
  | Out_of_range

text \<open>
  \<open>Thrown\<close> is a C++ \<^verbatim>\<open>throw\<close>; \<open>Static_assert\<close> is a \<^verbatim>\<open>static_assert\<close> that rejects the
  instantiation; \<open>Ill_formed\<close> is any other rejection at compile time (a \<^verbatim>\<open>bit_cast\<close>
  between types of different size, an array of negative size); \<open>Signed_overflow\<close> is an
  \<^verbatim>\<open>int\<close> operation whose result is not representable and \<open>Out_of_range\<close> a read or write
  outside the object, both undefined behaviour in the source.
\<close>

definition int_max :: int where
  "int_max = 2147483647"

definition to_bytes :: "nat \<Rightarrow> 'a::len word \<Rightarrow> u8 list" where
  "to_bytes n w = map (\<lambda>k. ucast (drop_bit (8 * k) w)) [0..<n]"

definition from_bytes :: "u8 list \<Rightarrow> 'a::len word" where
  "from_bytes bs = foldr (\<lambda>b w. ucast b OR push_bit 8 w) bs 0"

definition object_bytes :: "u64 list \<Rightarrow> u8 list" where
  "object_bytes source = concat (map (to_bytes 8) source)"

definition read_word :: "u64 list \<Rightarrow> nat \<Rightarrow> error + u64" where
  "read_word source i = (if i < length source then Inr (source ! i) else Inl Out_of_range)"

text \<open>Sequencing of steps that can fail: the first failure ends the computation.\<close>

definition bind_err :: "error + 'a \<Rightarrow> ('a \<Rightarrow> error + 'b) \<Rightarrow> error + 'b" where
  "bind_err r f = (case r of Inl e \<Rightarrow> Inl e | Inr x \<Rightarrow> f x)"

function chunks :: "nat \<Rightarrow> 'a list \<Rightarrow> 'a list list" where
  "chunks n xs = (if n = 0 \<or> xs = [] then [] else take n xs # chunks n (drop n xs))"
  by pat_completeness auto
termination
  by (relation "measure (\<lambda>(n, xs). length xs)") auto

declare chunks.simps [simp del]

text \<open>
  \<^verbatim>\<open>std::memcpy(dst, src, n)\<close> on the bytes of the destination: the first \<open>n\<close> bytes are
  replaced by the first \<open>n\<close> bytes of the source, the rest stays. Copying more than either
  object holds is undefined.
\<close>

definition memcpy :: "u8 list \<Rightarrow> u8 list \<Rightarrow> nat \<Rightarrow> error + u8 list" where
  "memcpy dst src n =
     (if n \<le> length src \<and> n \<le> length dst then Inr (take n src @ drop n dst)
      else Inl Out_of_range)"

section \<open>The header\<close>

text \<open>
  \<^verbatim>\<open>struct header\<close>; the padding members are never read or written by the decoder and are
  left out. Every member is zero-initialised.
\<close>

record header =
  type :: u8
  bpp :: u8
  bit_count :: u32
  width :: u16
  height :: u16
  color0 :: u32
  color1 :: u32

definition header_init :: header where
  "header_init = \<lparr>type = 0, bpp = 0, bit_count = 0, width = 0, height = 0, color0 = 0, color1 = 0\<rparr>"

text \<open>
  \<^verbatim>\<open>inliner::get_header\<close>, in its three blocks. \<open>front_decoder\<close> is the struct of the first
  block: \<open>type\<close> at byte 0, \<open>bpp\<close> at byte 1, two bytes of padding, \<open>bit_count\<close> at bytes 4
  to 7. The second block reads \<^verbatim>\<open>better_array<uint16_t, 4>\<close> (elements 0 and 1), the third
  \<^verbatim>\<open>better_array<uint32_t, 2>\<close>.
\<close>

definition front_decoder :: "u64 \<Rightarrow> header \<Rightarrow> header" where
  "front_decoder w result =
     (let temp = to_bytes 8 w
      in result\<lparr>type := temp ! 0, bpp := temp ! 1,
                bit_count := from_bytes (take 4 (drop 4 temp))\<rparr>)"

definition dims_block :: "u64 list \<Rightarrow> header \<Rightarrow> error + header" where
  "dims_block source result =
     (if 0 < type result
      then bind_err (read_word source 1)
             (\<lambda>w1. let temp = to_bytes 8 w1
                   in Inr (result\<lparr>width := from_bytes (take 2 temp),
                                  height := from_bytes (take 2 (drop 2 temp))\<rparr>))
      else Inr result)"

definition colors_block :: "u64 list \<Rightarrow> header \<Rightarrow> error + header" where
  "colors_block source result =
     (if type result = 2
      then bind_err (read_word source 2)
             (\<lambda>w2. let temp = to_bytes 8 w2
                   in Inr (result\<lparr>color0 := from_bytes (take 4 temp),
                                  color1 := from_bytes (take 4 (drop 4 temp))\<rparr>))
      else Inr result)"

definition get_header :: "u64 list \<Rightarrow> error + header" where
  "get_header source =
     bind_err (read_word source 0)
       (\<lambda>w0. bind_err (dims_block source (front_decoder w0 header_init))
              (\<lambda>result. colors_block source result))"

text \<open>\<^verbatim>\<open>inliner::is_image\<close>: byte 0 of word 0 is 1 or 2.\<close>

definition is_image :: "u64 list \<Rightarrow> error + bool" where
  "is_image source =
     bind_err (read_word source 0)
       (\<lambda>w0. let temp0 = to_bytes 8 w0; type' = temp0 ! 0 in Inr (type' = 1 \<or> type' = 2))"

section \<open>Element counts\<close>

text \<open>
  \<^verbatim>\<open>get_element_count(const header&)\<close>. The two \<^verbatim>\<open>uint16_t\<close> operands are promoted to
  \<^verbatim>\<open>int\<close> and multiplied there; a product above \<open>int_max\<close> is signed overflow.
\<close>

definition get_element_count :: "header \<Rightarrow> error + int" where
  "get_element_count head =
     (if type head = 0
      then Inl (Thrown ''Can't be used on non-image payloads without a type.'')
      else (let pixel_count = uint (width head) * uint (height head)
            in if pixel_count \<le> int_max then Inr pixel_count else Inl Signed_overflow))"

text \<open>
  \<^verbatim>\<open>get_element_count<user_type>(const header&)\<close>; \<open>sizeof_T\<close> is \<^verbatim>\<open>sizeof(user_type)\<close>.
  \<^verbatim>\<open>head.bit_count / 8\<close> is an unsigned division whose result is below \<open>2^29\<close>, and the
  second division is unsigned as well (\<^verbatim>\<open>sizeof\<close> is a \<^verbatim>\<open>size_t\<close>), so neither step
  can leave the range of \<^verbatim>\<open>int\<close>.
\<close>

definition get_element_count_T :: "nat \<Rightarrow> header \<Rightarrow> error + int" where
  "get_element_count_T sizeof_T head =
     (if type head = 2
      then get_element_count head
      else (let byte_count = uint (bit_count head) div 8
            in Inr (byte_count div int sizeof_T)))"

text \<open>The overloads on the word array parse the header first.\<close>

definition get_element_count_src :: "u64 list \<Rightarrow> error + int" where
  "get_element_count_src source =
     bind_err (get_header source) (\<lambda>head. get_element_count head)"

definition get_element_count_T_src :: "nat \<Rightarrow> u64 list \<Rightarrow> error + int" where
  "get_element_count_T_src sizeof_T source =
     bind_err (get_header source) (\<lambda>head. get_element_count_T sizeof_T head)"

section \<open>Palette and bit plane\<close>

text \<open>
  \<^verbatim>\<open>detail::get_sized_color_pair<bpp>\<close>: the loop copies component \<open>i\<close> of the two
  \<^verbatim>\<open>color_type<4>\<close> views of the header colours into the zero-initialised
  \<^verbatim>\<open>color_type<bpp>\<close> values. A component index beyond the four bytes of the view is a read
  outside the object.
\<close>

function copy_components ::
  "nat \<Rightarrow> nat \<Rightarrow> u8 list \<Rightarrow> u8 list \<Rightarrow> u8 list \<Rightarrow> u8 list \<Rightarrow> error + (u8 list \<times> u8 list)" where
  "copy_components i bpp' head_color0 head_color1 color0' color1' =
     (if i < bpp'
      then (if i < length head_color0 \<and> i < length head_color1
            then copy_components (Suc i) bpp' head_color0 head_color1
                   (color0'[i := head_color0 ! i]) (color1'[i := head_color1 ! i])
            else Inl Out_of_range)
      else Inr (color0', color1'))"
  by pat_completeness auto
termination
  by (relation "measure (\<lambda>(i, n, _). n - i)") auto

declare copy_components.simps [simp del]

definition get_sized_color_pair :: "nat \<Rightarrow> header \<Rightarrow> error + (u8 list \<times> u8 list)" where
  "get_sized_color_pair bpp' head =
     (let head_color0 = to_bytes 4 (color0 head);
          head_color1 = to_bytes 4 (color1 head)
      in copy_components 0 bpp' head_color0 head_color1 (replicate bpp' 0) (replicate bpp' 0))"

text \<open>
  \<^verbatim>\<open>detail::reconstruct\<close>. \<open>i / 8\<close> and \<open>i % 8\<close> are the truncating C operations
  (\<open>sdiv\<close>, \<open>smod\<close>). The mask is the \<^verbatim>\<open>uint8_t\<close> value \<open>1 << left_shift_amount\<close>; the
  selector is the masked byte shifted back and converted to \<^verbatim>\<open>bool\<close>. The palette entries
  and the elements of the target are the same byte patterns (\<^verbatim>\<open>bit_cast<T>\<close>), so one type
  stands for both. A primed name is a local whose plain name is a member of the header. A source byte or a target element that does not exist is an access
  outside the object.
\<close>

function reconstruct_loop ::
  "int \<Rightarrow> int \<Rightarrow> u8 list \<Rightarrow> 'a list \<Rightarrow> 'a \<Rightarrow> 'a \<Rightarrow> error + 'a list" where
  "reconstruct_loop i element_count source target color0' color1' =
     (if i < element_count
      then (let byte_index = i sdiv 8;
                bit_index = i smod 8;
                left_shift_amount = 7 - bit_index;
                mask = (push_bit (nat left_shift_amount) 1 :: u8)
            in if byte_index < 0 \<or> int (length source) \<le> byte_index \<or>
                  i < 0 \<or> int (length target) \<le> i
               then Inl Out_of_range
               else (let binary_value =
                           (drop_bit (nat left_shift_amount) ((source ! nat byte_index) AND mask) \<noteq> 0);
                         replacement_color = (if binary_value then color1' else color0')
                     in reconstruct_loop (i + 1) element_count source
                          (target[nat i := replacement_color]) color0' color1'))
      else Inr target)"
  by pat_completeness auto
termination
  by (relation "measure (\<lambda>(i, n, _). nat (n - i))") auto

declare reconstruct_loop.simps [simp del]

definition reconstruct :: "int \<Rightarrow> u8 list \<Rightarrow> 'a list \<Rightarrow> 'a \<Rightarrow> 'a \<Rightarrow> error + 'a list" where
  "reconstruct element_count source target color0' color1' =
     reconstruct_loop 0 element_count source target color0' color1'"

text \<open>\<^verbatim>\<open>detail::get_byte_count_from_bit_count\<close>, on \<^verbatim>\<open>int\<close> with truncating division.\<close>

definition get_byte_count_from_bit_count :: "int \<Rightarrow> int" where
  "get_byte_count_from_bit_count bit_count' =
     (let byte_count = bit_count' sdiv 8
      in if (bit_count' smod 8) > 0 then byte_count + 1 else byte_count)"

section \<open>The decoders\<close>

text \<open>
  Elements of the user type are their object representations: \<open>sizeof_T\<close> bytes each.
  \<open>data_start_ptr\<close> is \<^verbatim>\<open>reinterpret_cast<const uint8_t*>(&source[3])\<close>: the bytes of the
  array from word 3 on, for every kind of payload. The pointer can be formed for an array
  of at least three words (one past the last word at the least); for a shorter array
  \<^verbatim>\<open>&source[3]\<close> lies outside the object.
\<close>

definition data_start_ptr :: "u64 list \<Rightarrow> error + u8 list" where
  "data_start_ptr source =
     (if 3 \<le> length source then Inr (object_bytes (drop 3 source)) else Inl Out_of_range)"

text \<open>
  \<^verbatim>\<open>inliner::decode_to_vector<user_type>\<close>. The vector is created with \<open>element_count\<close>
  value-initialised elements. \<open>byte_count\<close> is only used by the \<^verbatim>\<open>memcpy\<close> branch, where
  \<open>element_count * sizeof(user_type)\<close> is at most \<open>bit_count / 8\<close>.
\<close>

definition decode_to_vector :: "nat \<Rightarrow> u64 list \<Rightarrow> error + u8 list list" where
  "decode_to_vector sizeof_T source =
     bind_err (get_header source) (\<lambda>head.
     bind_err (get_element_count_T sizeof_T head) (\<lambda>element_count.
       let byte_count = nat element_count * sizeof_T;
           result = replicate (nat element_count) (replicate sizeof_T (0::u8))
       in bind_err (data_start_ptr source) (\<lambda>data_start.
            if type head = 2
            then (let bpp' = sizeof_T
                  in bind_err (get_sized_color_pair bpp' head) (\<lambda>(color0', color1').
                       reconstruct element_count data_start result color0' color1'))
            else bind_err (memcpy (concat result) data_start byte_count) (\<lambda>bytes.
                   Inr (chunks sizeof_T bytes)))))"

text \<open>
  \<^verbatim>\<open>inliner::decode_into_pointer<user_type>\<close>; \<open>dst\<close> is the storage the caller passes, as
  the elements it holds before the call, and the result is that storage after the call.
\<close>

definition decode_into_pointer :: "nat \<Rightarrow> u64 list \<Rightarrow> u8 list list \<Rightarrow> error + u8 list list" where
  "decode_into_pointer sizeof_T source dst =
     bind_err (get_header source) (\<lambda>head.
     bind_err (get_element_count_T sizeof_T head) (\<lambda>element_count.
       let byte_count = nat element_count * sizeof_T
       in bind_err (data_start_ptr source) (\<lambda>data_start.
            if type head = 2
            then (let bpp' = sizeof_T
                  in bind_err (get_sized_color_pair bpp' head) (\<lambda>(color0', color1').
                       reconstruct element_count data_start dst color0' color1'))
            else bind_err (memcpy (concat dst) data_start byte_count) (\<lambda>bytes.
                   Inr (chunks sizeof_T bytes)))))"

text \<open>
  The layout of \<^verbatim>\<open>detail::wrapper_type<user_type, element_count>\<close>: three words of filler,
  then the member \<^verbatim>\<open>alignas(user_type) std::array<user_type, element_count> m_data\<close>.
  \<open>alignof_T\<close> is \<^verbatim>\<open>alignof(user_type)\<close>, a power of two. The array starts at the first
  multiple of \<open>alignof_T\<close> from byte 24 on: at byte 24 for an alignment of 1, 2, 4 or 8, at
  byte 32 for an alignment of 16 or 32. The struct is aligned to the larger of 8 (the
  filler) and \<open>alignof_T\<close>, and its size is rounded up to that alignment. An array of
  \<open>n > 0\<close> elements has \<open>n * sizeof_T\<close> bytes; an empty \<^verbatim>\<open>std::array\<close> keeps one unused
  element (the decoder only instantiates it for the byte type, where it has size 1).
\<close>

definition round_up :: "nat \<Rightarrow> nat \<Rightarrow> nat" where
  "round_up x a = a * ((x + a - 1) div a)"

definition std_array_size :: "nat \<Rightarrow> nat \<Rightarrow> nat" where
  "std_array_size sizeof_T element_count =
     (if element_count = 0 then sizeof_T else sizeof_T * element_count)"

definition m_data_offset :: "nat \<Rightarrow> nat" where
  "m_data_offset alignof_T = round_up 24 alignof_T"

definition wrapper_size :: "nat \<Rightarrow> nat \<Rightarrow> nat \<Rightarrow> nat" where
  "wrapper_size sizeof_T alignof_T element_count =
     round_up (m_data_offset alignof_T + std_array_size sizeof_T element_count) (max 8 alignof_T)"

text \<open>
  \<^verbatim>\<open>std::bit_cast<wrapper_type<user_type, element_count>>(source).m_data\<close>: only
  well-formed when the source array and the wrapper have the same size; the result is the
  elements found at the offset of \<open>m_data\<close>.
\<close>

definition bit_cast_m_data :: "nat \<Rightarrow> nat \<Rightarrow> nat \<Rightarrow> u64 list \<Rightarrow> error + u8 list list" where
  "bit_cast_m_data sizeof_T alignof_T element_count source =
     (if 8 * length source = wrapper_size sizeof_T alignof_T element_count
      then Inr (chunks sizeof_T
                  (take (sizeof_T * element_count)
                     (drop (m_data_offset alignof_T) (object_bytes source))))
      else Inl Ill_formed)"

text \<open>
  \<^verbatim>\<open>inliner::decode_to_array<user_type, head, array_size, element_count>\<close>. The header
  and the element count are template arguments, so the two assertions and the size
  requirement of \<^verbatim>\<open>std::bit_cast\<close> are decided when the template is instantiated. The
  intermediate array of the dual-colour branch has elements of type \<^verbatim>\<open>uint8_t\<close> (size 1,
  alignment 1). The result array starts uninitialised and is overwritten in full.
\<close>

definition decode_to_array ::
  "nat \<Rightarrow> nat \<Rightarrow> header \<Rightarrow> int \<Rightarrow> u64 list \<Rightarrow> error + u8 list list" where
  "decode_to_array sizeof_T alignof_T head element_count source =
     (if element_count \<le> 0
      then Inl (Static_assert ''Not enough bytes to even fill one of those types.'')
      else if type head = 2
      then (if sizeof_T = unat (bpp head)
            then bind_err (get_sized_color_pair (unat (bpp head)) head) (\<lambda>(color0', color1').
                   let byte_count = get_byte_count_from_bit_count (sint (bit_count head))
                   in if byte_count < 0 then Inl Ill_formed
                      else bind_err (bit_cast_m_data 1 1 (nat byte_count) source) (\<lambda>interm.
                             reconstruct element_count (concat interm)
                               (replicate (nat element_count) (replicate sizeof_T (0::u8)))
                               color0' color1'))
            else Inl (Static_assert ''User type has different size than bpp''))
      else bit_cast_m_data sizeof_T alignof_T (nat element_count) source)"

text \<open>The template's default for \<open>element_count\<close> is \<^verbatim>\<open>get_element_count<user_type>(head)\<close>.\<close>

definition decode_to_array_default ::
  "nat \<Rightarrow> nat \<Rightarrow> header \<Rightarrow> u64 list \<Rightarrow> error + u8 list list" where
  "decode_to_array_default sizeof_T alignof_T head source =
     bind_err (get_element_count_T sizeof_T head) (\<lambda>element_count.
       decode_to_array sizeof_T alignof_T head element_count source)"

section \<open>Notions used in the statements\<close>

text \<open>
  The number of leading words that belong to the header of a payload of the given kind:
  one for a generic binary, three for a dual-colour image, two for everything else.
\<close>

definition header_words :: "u8 \<Rightarrow> nat" where
  "header_words kind = (if kind = 0 then 1 else if kind = 2 then 3 else 2)"

text \<open>
  The palette entry that element \<open>i\<close> of a bit plane selects: the bit at position
  \<open>7 - i mod 8\<close>, counted from the least significant bit, of byte \<open>i div 8\<close>.
\<close>

definition selected :: "u8 list \<Rightarrow> 'a \<Rightarrow> 'a \<Rightarrow> nat \<Rightarrow> 'a" where
  "selected source c0 c1 i = (if bit (source ! (i div 8)) (7 - i mod 8) then c1 else c0)"

section \<open>Helper facts\<close>

lemma bind_err_simps [simp]:
  "bind_err (Inl e) f = Inl e"
  "bind_err (Inr x) f = f x"
  by (simp_all add: bind_err_def)

lemma bind_err_Inr_iff: "bind_err r f = Inr y \<longleftrightarrow> (\<exists>x. r = Inr x \<and> f x = Inr y)"
  by (cases r) simp_all

lemma sdiv_nonneg: "0 \<le> a \<Longrightarrow> 0 < b \<Longrightarrow> (a::int) sdiv b = a div b"
  by (cases "a = 0") (simp_all add: signed_divide_int_def sgn_if)

lemma smod_nonneg: "0 \<le> a \<Longrightarrow> 0 < b \<Longrightarrow> (a::int) smod b = a mod b"
  by (cases "a = 0") (simp_all add: signed_modulo_int_def sgn_if)

lemma ceiling_eighth: "\<lceil>real_of_int n / 8\<rceil> = (n + 7) div 8"
proof -
  have "\<lceil>real_of_int n / real_of_int 8\<rceil> = - (- n div 8)"
    by (rule ceiling_divide_eq_div)
  also have "\<dots> = (n + 7) div 8" by presburger
  finally show ?thesis by simp
qed

lemma length_to_bytes [simp]: "length (to_bytes n w) = n"
  by (simp add: to_bytes_def)

lemma nth_to_bytes: "i < n \<Longrightarrow> to_bytes n w ! i = ucast (drop_bit (8 * i) w)"
  by (simp add: to_bytes_def)

section \<open>Parsing the header\<close>

lemma type_front_decoder: "type (front_decoder w h) = to_bytes 8 w ! 0"
  by (simp add: front_decoder_def Let_def)

lemma type_dims_block: "dims_block source h = Inr h' \<Longrightarrow> type h' = type h"
  by (auto simp: dims_block_def Let_def bind_err_Inr_iff split: if_splits)

lemma type_colors_block: "colors_block source h = Inr h' \<Longrightarrow> type h' = type h"
  by (auto simp: colors_block_def Let_def bind_err_Inr_iff split: if_splits)

lemma get_header_type:
  assumes "get_header source = Inr head"
  shows "source \<noteq> [] \<and> type head = to_bytes 8 (source ! 0) ! 0"
proof -
  from assms obtain w0 h1 where r: "read_word source 0 = Inr w0"
    and d: "dims_block source (front_decoder w0 header_init) = Inr h1"
    and c: "colors_block source h1 = Inr head"
    by (auto simp: get_header_def bind_err_Inr_iff)
  from r have "source \<noteq> []" "w0 = source ! 0"
    by (auto simp: read_word_def split: if_splits)
  with type_dims_block [OF d] type_colors_block [OF c] show ?thesis
    by (simp add: type_front_decoder)
qed

lemma is_image_of_header:
  assumes "get_header source = Inr head"
  shows "is_image source = Inr (type head = 1 \<or> type head = 2)"
  using get_header_type [OF assms]
  by (simp add: is_image_def read_word_def Let_def)

lemma get_header_Nil: "get_header [] = Inl Out_of_range"
  by (simp add: get_header_def read_word_def)

lemma get_header_generic:
  assumes "to_bytes 8 w0 ! 0 = 0"
  shows "get_header (w0 # rest) = Inr (front_decoder w0 header_init)"
  using assms
  by (simp add: get_header_def read_word_def dims_block_def colors_block_def type_front_decoder)

lemma get_header_image_short:
  assumes "to_bytes 8 w0 ! 0 \<noteq> 0"
  shows "get_header [w0] = Inl Out_of_range"
  using assms
  by (simp add: get_header_def read_word_def dims_block_def type_front_decoder word_greater_zero_iff)

lemma get_header_image:
  assumes "to_bytes 8 w0 ! 0 \<noteq> 0" and "to_bytes 8 w0 ! 0 \<noteq> 2"
  shows "get_header (w0 # w1 # rest) =
           Inr ((front_decoder w0 header_init)
                  \<lparr>width := from_bytes (take 2 (to_bytes 8 w1)),
                   height := from_bytes (take 2 (drop 2 (to_bytes 8 w1)))\<rparr>)"
  using assms
  by (simp add: get_header_def read_word_def dims_block_def colors_block_def type_front_decoder
      word_greater_zero_iff Let_def)

lemma get_header_dual_short:
  assumes "to_bytes 8 w0 ! 0 = 2"
  shows "get_header [w0, w1] = Inl Out_of_range"
  using assms
  by (simp add: get_header_def read_word_def dims_block_def colors_block_def type_front_decoder
      word_greater_zero_iff Let_def)

lemma get_header_dual:
  assumes "to_bytes 8 w0 ! 0 = 2"
  shows "get_header (w0 # w1 # w2 # rest) =
           Inr ((front_decoder w0 header_init)
                  \<lparr>width := from_bytes (take 2 (to_bytes 8 w1)),
                   height := from_bytes (take 2 (drop 2 (to_bytes 8 w1))),
                   color0 := from_bytes (take 4 (to_bytes 8 w2)),
                   color1 := from_bytes (take 4 (drop 4 (to_bytes 8 w2)))\<rparr>)"
  using assms
  by (simp add: get_header_def read_word_def dims_block_def colors_block_def type_front_decoder
      word_greater_zero_iff Let_def)

text \<open>
  Claim C6. Parsing reads word 0 unconditionally (an empty array is already a read out of
  range), word 1 only when the kind byte of word 0 is non-zero and word 2 only when the
  kind is 2: on an array that holds at least the \<open>header_words\<close> of its kind the parse
  succeeds and gives the same header as on the array cut down to exactly those words,
  where every further word is absent and reading one would fail; on a shorter array the
  parse reads out of range. In particular a generic header is parsed from word 0 alone,
  so a one-word array is never read out of range.
\<close>

theorem header_reads:
  assumes "source \<noteq> []"
  shows "get_header [] = Inl Out_of_range \<and>
         (header_words (to_bytes 8 (source ! 0) ! 0) \<le> length source \<longrightarrow>
            (\<exists>head. get_header source = Inr head) \<and>
            get_header (take (header_words (to_bytes 8 (source ! 0) ! 0)) source) = get_header source) \<and>
         (length source < header_words (to_bytes 8 (source ! 0) ! 0) \<longrightarrow>
            get_header source = Inl Out_of_range) \<and>
         (to_bytes 8 (source ! 0) ! 0 = 0 \<longrightarrow>
            get_header [source ! 0] = get_header source \<and>
            get_header source = Inr (front_decoder (source ! 0) header_init))"
proof -
  from assms obtain w0 rest where s: "source = w0 # rest"
    by (cases source) auto
  let ?k = "to_bytes 8 w0 ! 0"
  consider (generic) "?k = 0" | (dual) "?k = 2" | (image) "?k \<noteq> 0" "?k \<noteq> 2"
    by blast
  then show ?thesis
  proof cases
    case generic
    then show ?thesis
      by (simp add: s header_words_def get_header_generic get_header_Nil)
  next
    case dual
    then have nz: "?k \<noteq> 0" by simp
    show ?thesis
    proof (cases rest)
      case Nil
      with dual nz show ?thesis
        by (simp add: s header_words_def get_header_image_short get_header_Nil)
    next
      case (Cons w1 rest1)
      note c1 = this
      show ?thesis
      proof (cases rest1)
        case Nil
        with dual c1 show ?thesis
          by (simp add: s header_words_def get_header_dual_short get_header_Nil)
      next
        case (Cons w2 rest2)
        with dual c1 show ?thesis
          by (simp add: s header_words_def get_header_dual get_header_Nil)
      qed
    qed
  next
    case image
    show ?thesis
    proof (cases rest)
      case Nil
      with image show ?thesis
        by (simp add: s header_words_def get_header_image_short get_header_Nil)
    next
      case (Cons w1 rest1)
      with image show ?thesis
        by (simp add: s header_words_def get_header_image get_header_Nil)
    qed
  qed
qed

lemma kind_byte_generic: "to_bytes 8 (0x3000000300 :: u64) ! 0 = 0"
  by code_simp

lemma kind_byte_image: "to_bytes 8 (0x3000000301 :: u64) ! 0 = 1"
  by code_simp

lemma front_decoder_generic:
  "front_decoder 0x3000000300 header_init =
     \<lparr>type = 0, bpp = 3, bit_count = 48, width = 0, height = 0, color0 = 0, color1 = 0\<rparr>"
  by code_simp

theorem header_reads_witness:
  "get_header [0x3000000300] =
     Inr \<lparr>type = 0, bpp = 3, bit_count = 48, width = 0, height = 0, color0 = 0, color1 = 0\<rparr> \<and>
   get_header [0x3000000300, 7, 9] = get_header [0x3000000300] \<and>
   get_header [0x3000000301] = Inl Out_of_range"
proof -
  have a: "get_header [0x3000000300] =
      Inr \<lparr>type = 0, bpp = 3, bit_count = 48, width = 0, height = 0, color0 = 0, color1 = 0\<rparr>"
    using header_reads [of "[0x3000000300]"]
    by (simp only: kind_byte_generic front_decoder_generic nth_Cons_0) simp
  have b: "get_header [0x3000000300, 7, 9] = get_header [0x3000000300]"
    using header_reads [of "[0x3000000300, 7, 9]"]
    by (simp only: kind_byte_generic front_decoder_generic nth_Cons_0) simp
  have c: "get_header [0x3000000301] = Inl Out_of_range"
    using header_reads [of "[0x3000000301]"]
    by (simp only: kind_byte_image nth_Cons_0 header_words_def) simp
  show ?thesis using a b c by simp
qed

section \<open>Element counts\<close>

text \<open>
  Claim C5. For every header whose kind is Generic (\<open>type = 0\<close>) the type-agnostic
  \<open>get_element_count\<close> fails with the explicit error thrown by the source; it returns no
  value, neither on the header nor through the overload that parses a word array first.
\<close>

theorem generic_count_throws:
  assumes "type head = 0"
  shows "get_element_count head =
           Inl (Thrown ''Can't be used on non-image payloads without a type.'') \<and>
         (\<forall>n. get_element_count head \<noteq> Inr n) \<and>
         (\<forall>source. get_header source = Inr head \<longrightarrow>
            get_element_count_src source =
              Inl (Thrown ''Can't be used on non-image payloads without a type.''))"
  using assms by (simp add: get_element_count_def get_element_count_src_def)

theorem generic_count_throws_witness:
  "type header_init = 0 \<and>
   get_header [0x3000000300] = Inr (header_init\<lparr>bpp := 3, bit_count := 48\<rparr>) \<and>
   get_element_count header_init =
     Inl (Thrown ''Can't be used on non-image payloads without a type.'') \<and>
   get_element_count_src [0x3000000300] =
     Inl (Thrown ''Can't be used on non-image payloads without a type.'')"
proof -
  have t: "type (header_init\<lparr>bpp := 3, bit_count := 48\<rparr>) = 0" "type header_init = 0"
    by (simp_all add: header_init_def)
  have g: "get_header [0x3000000300] = Inr (header_init\<lparr>bpp := 3, bit_count := 48\<rparr>)"
    by code_simp
  show ?thesis
    using generic_count_throws [OF t(1)] generic_count_throws [OF t(2)] g t by simp
qed

text \<open>
  Claim C4, as stated: for every header whose kind is not Generic, \<open>get_element_count\<close>
  returns \<open>width * height\<close>, for every pair of dimensions. It fails for a 65535 by 65535
  image: the product 4294836225 is not a value of the \<^verbatim>\<open>int\<close> the two operands are
  multiplied in and the function returns.
\<close>

theorem image_count_overflow_counterexample:
  "get_element_count \<lparr>type = 1, bpp = 1, bit_count = 0, width = 65535, height = 65535,
                      color0 = 0, color1 = 0\<rparr> \<noteq> Inr (65535 * 65535)"
  by (simp add: get_element_count_def int_max_def)

text \<open>
  Claim C4, amended. For every header whose kind is not Generic and whose product
  \<open>width * height\<close> is at most \<open>2^31 - 1\<close>, \<open>get_element_count\<close> returns
  \<open>width * height\<close>; in particular it returns 0 when the width or the height is 0.
\<close>

theorem image_count_is_product:
  assumes "type head \<noteq> 0" and "uint (width head) * uint (height head) \<le> 2147483647"
  shows "get_element_count head = Inr (uint (width head) * uint (height head)) \<and>
         (width head = 0 \<or> height head = 0 \<longrightarrow> get_element_count head = Inr 0)"
  using assms by (auto simp: get_element_count_def int_max_def Let_def)

theorem image_count_is_product_witness:
  "get_element_count \<lparr>type = 1, bpp = 3, bit_count = 0, width = 640, height = 480,
                      color0 = 0, color1 = 0\<rparr> = Inr 307200 \<and>
   get_element_count \<lparr>type = 2, bpp = 1, bit_count = 0, width = 0, height = 480,
                      color0 = 0, color1 = 0\<rparr> = Inr 0 \<and>
   get_element_count \<lparr>type = 2, bpp = 1, bit_count = 0, width = 640, height = 0,
                      color0 = 0, color1 = 0\<rparr> = Inr 0"
  using image_count_is_product [of "\<lparr>type = 1, bpp = 3, bit_count = 0, width = 640, height = 480,
                      color0 = 0, color1 = 0\<rparr>"]
    image_count_is_product [of "\<lparr>type = 2, bpp = 1, bit_count = 0, width = 0, height = 480,
                      color0 = 0, color1 = 0\<rparr>"]
    image_count_is_product [of "\<lparr>type = 2, bpp = 1, bit_count = 0, width = 640, height = 0,
                      color0 = 0, color1 = 0\<rparr>"]
  by simp

text \<open>
  Claim C3, as stated: for a DualColorImage header the typed count equals
  \<open>width * height\<close>. It fails for a 65535 by 65535 dual-colour image (whose 4294836225
  index bits still fit the 32-bit \<open>bit_count\<close>), for the reason given under claim C4.
\<close>

theorem typed_count_overflow_counterexample:
  "get_element_count_T 1 \<lparr>type = 2, bpp = 1, bit_count = 4294836225, width = 65535,
                          height = 65535, color0 = 0, color1 = 0\<rparr> \<noteq> Inr (65535 * 65535)"
  by (simp add: get_element_count_T_def get_element_count_def int_max_def)

text \<open>
  Claim C3, amended. For every header and every element size \<open>sizeof_T > 0\<close>: if the
  kind is DualColorImage, the typed count is the type-agnostic count of the same header,
  whatever the element size, and that is \<open>width * height\<close> whenever the product is at
  most \<open>2^31 - 1\<close>; for every other kind (Generic and Image among them) the typed count
  is \<open>floor (bit_count / 8) div sizeof_T\<close>, a partial trailing element being dropped
  without an error.
\<close>

theorem typed_count:
  assumes "0 < sizeof_T"
  shows "(type head = 2 \<longrightarrow>
            get_element_count_T sizeof_T head = get_element_count head \<and>
            (uint (width head) * uint (height head) \<le> 2147483647 \<longrightarrow>
               get_element_count_T sizeof_T head = Inr (uint (width head) * uint (height head)))) \<and>
         (type head \<noteq> 2 \<longrightarrow>
            get_element_count_T sizeof_T head =
              Inr (\<lfloor>real_of_int (uint (bit_count head)) / 8\<rfloor> div int sizeof_T))"
proof -
  have f: "\<lfloor>real_of_int (uint (bit_count head)) / 8\<rfloor> = uint (bit_count head) div 8"
    using floor_divide_of_int_eq [of "uint (bit_count head)" 8, where ?'a = real] by simp
  show ?thesis
    unfolding f by (auto simp: get_element_count_T_def get_element_count_def int_max_def Let_def)
qed

theorem typed_count_witness:
  "get_element_count_T 4 \<lparr>type = 2, bpp = 4, bit_count = 12, width = 4, height = 3,
                          color0 = 0, color1 = 0\<rparr> = Inr 12 \<and>
   get_element_count_T 4 \<lparr>type = 0, bpp = 0, bit_count = 63, width = 0, height = 0,
                          color0 = 0, color1 = 0\<rparr> = Inr 1 \<and>
   get_element_count_T 2 \<lparr>type = 1, bpp = 3, bit_count = 63, width = 9, height = 9,
                          color0 = 0, color1 = 0\<rparr> = Inr 3"
  using typed_count [of 4 "\<lparr>type = 2, bpp = 4, bit_count = 12, width = 4, height = 3,
                          color0 = 0, color1 = 0\<rparr>"]
    typed_count [of 4 "\<lparr>type = 0, bpp = 0, bit_count = 63, width = 0, height = 0,
                          color0 = 0, color1 = 0\<rparr>"]
    typed_count [of 2 "\<lparr>type = 1, bpp = 3, bit_count = 63, width = 9, height = 9,
                          color0 = 0, color1 = 0\<rparr>"]
  by (simp add: get_element_count_def int_max_def)

text \<open>
  Claim C10, as stated: for every header whose kind byte is none of 0, 1, 2 the
  type-agnostic \<open>get_element_count\<close> succeeds and returns \<open>width * height\<close>. It fails for
  kind 3 and a 65535 by 65535 image, for the reason given under claim C4.
\<close>

theorem unknown_kind_overflow_counterexample:
  "get_element_count \<lparr>type = 3, bpp = 1, bit_count = 0, width = 65535, height = 65535,
                      color0 = 0, color1 = 0\<rparr> \<noteq> Inr (65535 * 65535)"
  by (simp add: get_element_count_def int_max_def)

text \<open>
  Claim C10, amended. For every header whose kind byte is none of 0, 1, 2 the
  type-agnostic \<open>get_element_count\<close> behaves exactly as for the two image kinds: it never
  throws (only kind 0 does) and returns \<open>width * height\<close> whenever the product is at most
  \<open>2^31 - 1\<close>, although \<open>is_image\<close> on every word array with that header is false.
\<close>

theorem unknown_kind_counts_as_image:
  assumes "type head \<noteq> 0" and "type head \<noteq> 1" and "type head \<noteq> 2"
  shows "get_element_count head = get_element_count (head\<lparr>type := 1\<rparr>) \<and>
         get_element_count head = get_element_count (head\<lparr>type := 2\<rparr>) \<and>
         (\<forall>m. get_element_count head \<noteq> Inl (Thrown m)) \<and>
         (uint (width head) * uint (height head) \<le> 2147483647 \<longrightarrow>
            get_element_count head = Inr (uint (width head) * uint (height head))) \<and>
         (\<forall>source. get_header source = Inr head \<longrightarrow>
            is_image source = Inr False \<and> get_element_count_src source = get_element_count head)"
  using assms
  by (auto simp: get_element_count_def int_max_def Let_def is_image_of_header get_element_count_src_def)

theorem unknown_kind_counts_as_image_witness:
  "get_header [0x303, 0x70005] = Inr (header_init\<lparr>type := 3, bpp := 3, width := 5, height := 7\<rparr>) \<and>
   get_element_count (header_init\<lparr>type := 3, bpp := 3, width := 5, height := 7\<rparr>) = Inr 35 \<and>
   get_element_count_src [0x303, 0x70005] = Inr 35 \<and>
   is_image [0x303, 0x70005] = Inr False"
proof -
  let ?h = "header_init\<lparr>type := 3, bpp := 3, width := 5, height := 7\<rparr>"
  have t: "type ?h \<noteq> 0" "type ?h \<noteq> 1" "type ?h \<noteq> 2" by simp_all
  have g: "get_header [0x303, 0x70005] = Inr ?h" by code_simp
  have w: "uint (width ?h) * uint (height ?h) = 35" by simp
  show ?thesis
    using unknown_kind_counts_as_image [OF t] g w
    by (simp add: get_element_count_def int_max_def)
qed

section \<open>The palette\<close>

lemma copy_components_inv:
  assumes "i \<le> n" and "n \<le> length hc0" and "n \<le> length hc1"
    and "length c0 = n" and "length c1 = n"
  shows "copy_components i n hc0 hc1 c0 c1 =
           Inr (take i c0 @ drop i (take n hc0), take i c1 @ drop i (take n hc1))"
  using assms
proof (induction "n - i" arbitrary: i c0 c1)
  case 0
  then have "i = n" by simp
  with 0 show ?case
    by (simp add: copy_components.simps [of n n])
next
  case (Suc d)
  then have lt: "i < n" and d: "d = n - Suc i" by simp_all
  have step: "copy_components i n hc0 hc1 c0 c1 =
                copy_components (Suc i) n hc0 hc1 (c0[i := hc0 ! i]) (c1[i := hc1 ! i])"
    using lt Suc.prems by (simp add: copy_components.simps [of i])
  have ih: "copy_components (Suc i) n hc0 hc1 (c0[i := hc0 ! i]) (c1[i := hc1 ! i]) =
              Inr (take (Suc i) (c0[i := hc0 ! i]) @ drop (Suc i) (take n hc0),
                   take (Suc i) (c1[i := hc1 ! i]) @ drop (Suc i) (take n hc1))"
    using Suc.hyps(1) [OF d] lt Suc.prems by simp
  have t0: "take (Suc i) (c0[i := hc0 ! i]) @ drop (Suc i) (take n hc0) =
            take i c0 @ drop i (take n hc0)"
    using lt Suc.prems
    by (simp add: take_Suc_conv_app_nth Cons_nth_drop_Suc [symmetric])
  have t1: "take (Suc i) (c1[i := hc1 ! i]) @ drop (Suc i) (take n hc1) =
            take i c1 @ drop i (take n hc1)"
    using lt Suc.prems
    by (simp add: take_Suc_conv_app_nth Cons_nth_drop_Suc [symmetric])
  show ?case
    by (simp only: step ih t0 t1)
qed

text \<open>
  Claim C9. For every header and every \<open>n\<close> (the template argument \<open>bpp\<close>) from 1 to 4,
  the palette is the first \<open>n\<close> bytes of the stored \<open>color0\<close> and the first \<open>n\<close> bytes of
  the stored \<open>color1\<close>, lowest-addressed byte first: component \<open>i\<close> is byte \<open>i\<close> of the
  packed colour, with no reordering and no arithmetic on the values.
\<close>

theorem palette_is_leading_bytes:
  assumes "1 \<le> n" and "n \<le> 4"
  shows "get_sized_color_pair n head =
           Inr (take n (to_bytes 4 (color0 head)), take n (to_bytes 4 (color1 head))) \<and>
         (\<forall>i<n. take n (to_bytes 4 (color0 head)) ! i = ucast (drop_bit (8 * i) (color0 head)) \<and>
                take n (to_bytes 4 (color1 head)) ! i = ucast (drop_bit (8 * i) (color1 head)))"
  using assms
  by (simp add: get_sized_color_pair_def Let_def copy_components_inv nth_to_bytes)

lemma leading_bytes_example:
  "take 3 (to_bytes 4 (0x11223344 :: u32)) = [0x44, 0x33, 0x22]"
  "take 3 (to_bytes 4 (0x55667788 :: u32)) = [0x88, 0x77, 0x66]"
  by code_simp+

theorem palette_is_leading_bytes_witness:
  "get_sized_color_pair 3 \<lparr>type = 2, bpp = 3, bit_count = 0, width = 0, height = 0,
                           color0 = 0x11223344, color1 = 0x55667788\<rparr> =
     Inr ([0x44, 0x33, 0x22], [0x88, 0x77, 0x66])"
  using palette_is_leading_bytes [of 3 "\<lparr>type = 2, bpp = 3, bit_count = 0, width = 0, height = 0,
                           color0 = 0x11223344, color1 = 0x55667788\<rparr>"]
  by (simp add: leading_bytes_example)

section \<open>The bit plane\<close>

lemma selector_bit:
  assumes "k < 8"
  shows "(drop_bit k ((s::u8) AND push_bit k 1) \<noteq> 0) = bit s k"
  by (metis (no_types, lifting) and.commute and.idem and_zero_eq bit_and_iff
      bit_iff_and_drop_bit_eq_1 bit_iff_and_push_bit_not_eq_0 drop_bit_of_0)

lemma reconstruct_loop_step:
  assumes "0 \<le> i" and "i < n" and "n \<le> int (length target)" and "n \<le> 8 * int (length source)"
  shows "reconstruct_loop i n source target c0 c1 =
           reconstruct_loop (i + 1) n source (target[nat i := selected source c0 c1 (nat i)]) c0 c1"
proof -
  have d: "i sdiv 8 = i div 8" and m: "i smod 8 = i mod 8"
    using assms by (simp_all add: sdiv_nonneg smod_nonneg)
  have r: "0 \<le> i div 8" "i div 8 < int (length source)" "i < int (length target)"
    using assms by auto
  have k: "nat (7 - i mod 8) = 7 - nat i mod 8" "nat (i div 8) = nat i div 8"
    using assms by (simp_all add: nat_diff_distrib nat_mod_distrib nat_div_distrib)
  have lt: "7 - nat i mod 8 < 8" by simp
  show ?thesis
    using assms r
    apply (subst reconstruct_loop.simps)
    apply (simp only: Let_def d m k selector_bit [OF lt])
    apply (simp add: selected_def)
    done
qed

lemma reconstruct_loop_inv:
  assumes "0 \<le> i" and "i \<le> n" and "n \<le> int (length target)" and "n \<le> 8 * int (length source)"
  shows "reconstruct_loop i n source target c0 c1 =
           Inr (take (nat i) target @ map (selected source c0 c1) [nat i..<nat n] @ drop (nat n) target)"
  using assms
proof (induction "nat (n - i)" arbitrary: i target)
  case 0
  then have "i = n" by simp
  with 0 show ?case
    by (simp add: reconstruct_loop.simps [of n n])
next
  case (Suc d)
  then have lt: "i < n" and d: "d = nat (n - (i + 1))" by simp_all
  let ?t = "target[nat i := selected source c0 c1 (nat i)]"
  have "reconstruct_loop i n source target c0 c1 = reconstruct_loop (i + 1) n source ?t c0 c1"
    using reconstruct_loop_step [OF Suc.prems(1) lt Suc.prems(3,4)] .
  also have "\<dots> = Inr (take (nat (i + 1)) ?t @ map (selected source c0 c1) [nat (i + 1)..<nat n] @
                        drop (nat n) ?t)"
    using Suc.hyps(1) [OF d] lt Suc.prems by simp
  also have "take (nat (i + 1)) ?t = take (nat i) target @ [selected source c0 c1 (nat i)]"
    using lt Suc.prems by (simp add: nat_add_distrib take_Suc_conv_app_nth)
  also have "drop (nat n) ?t = drop (nat n) target"
    using lt Suc.prems by simp
  also have "[nat (i + 1)..<nat n] = [Suc (nat i)..<nat n]"
    using Suc.prems by (simp add: nat_add_distrib)
  finally show ?case
    using lt Suc.prems by (simp add: upt_conv_Cons)
qed

text \<open>
  Claim C1. For every element count \<open>n \<ge> 0\<close>, every index plane \<open>source\<close> that holds the
  \<open>n\<close> selector bits, every target with room for \<open>n\<close> elements and every palette
  \<open>(c0, c1)\<close>, the reconstruction succeeds and element \<open>i < n\<close> of its output is the
  palette entry selected by the bit at position \<open>7 - i mod 8\<close>, counted from the least
  significant bit, of source byte \<open>i div 8\<close>: \<open>c0\<close> for 0 and \<open>c1\<close> for 1. Elements of the
  target from \<open>n\<close> on are left alone. For the single index byte \<open>0b10110000\<close> and the
  palette \<open>(A, B)\<close>, decoding 8 elements gives \<open>[B, A, B, B, A, A, A, A]\<close>.
\<close>

theorem reconstruct_selects_msb_first:
  assumes "0 \<le> n" and "n \<le> int (length target)" and "n \<le> 8 * int (length source)"
  shows "(\<exists>out. reconstruct n source target c0 c1 = Inr out \<and>
            length out = length target \<and>
            (\<forall>i<nat n. out ! i = (if bit (source ! (i div 8)) (7 - i mod 8) then c1 else c0)) \<and>
            (\<forall>i. nat n \<le> i \<and> i < length target \<longrightarrow> out ! i = target ! i)) \<and>
         reconstruct 8 [0xB0] [t0, t1, t2, t3, t4, t5, t6, t7] A B = Inr [B, A, B, B, A, A, A, A]"
proof -
  let ?out = "map (selected source c0 c1) [0..<nat n] @ drop (nat n) target"
  have r: "reconstruct n source target c0 c1 = Inr ?out"
    using assms by (simp add: reconstruct_def reconstruct_loop_inv)
  have l: "length ?out = length target"
    using assms by simp
  have a: "\<forall>i<nat n. ?out ! i = (if bit (source ! (i div 8)) (7 - i mod 8) then c1 else c0)"
    by (simp add: nth_append selected_def)
  have b: "\<forall>i. nat n \<le> i \<and> i < length target \<longrightarrow> ?out ! i = target ! i"
    using assms by (auto simp: nth_append)
  have e: "reconstruct 8 [0xB0] [t0, t1, t2, t3, t4, t5, t6, t7] A B = Inr [B, A, B, B, A, A, A, A]"
    by (simp add: reconstruct_def reconstruct_loop_inv selected_def upt_conv_Cons)
  show ?thesis
    using r l a b e by blast
qed

lemma reconstruct_example:
  "reconstruct 10 [0xB0, 0x40] [0, 0, 0, 0, 0, 0, 0, 0, 0, 0, 9 :: nat] 1 2 =
     Inr [2, 1, 2, 2, 1, 1, 1, 1, 1, 2, 9]"
  by code_simp

theorem reconstruct_selects_msb_first_witness:
  "reconstruct 10 [0xB0, 0x40] [0, 0, 0, 0, 0, 0, 0, 0, 0, 0, 9 :: nat] 1 2 =
     Inr [2, 1, 2, 2, 1, 1, 1, 1, 1, 2, 9]"
  using reconstruct_selects_msb_first
          [of 10 "[0, 0, 0, 0, 0, 0, 0, 0, 0, 0, 9 :: nat]" "[0xB0, 0x40]" 1 2] reconstruct_example
  by simp

section \<open>Copying the payload\<close>

lemma chunks_Nil [simp]: "chunks n [] = []"
  by (simp add: chunks.simps)







lemma length_object_bytes: "length (object_bytes source) = 8 * length source"
  by (induction source) (simp_all add: object_bytes_def)


















section \<open>Element size against bytes per pixel\<close>

text \<open>
  Claim C2 says that decoding a DualColorImage into an element type whose size differs
  from the header's \<open>bpp\<close> fails in every decoder. The array decoder does reject it, by
  its \<^verbatim>\<open>static_assert\<close>; the vector decoder and the decoder into caller storage have no
  such check and take \<^verbatim>\<open>sizeof(user_type)\<close> for \<open>bpp\<close>. On the 8 by 1 dual-colour image
  with \<open>bpp = 1\<close>, colours \<open>0x11223344\<close> and \<open>0x55667788\<close> and index byte
  \<open>0b10110000\<close>, decoded with a 4-byte element type, both return eight 4-byte elements.
\<close>

theorem size_mismatch_not_rejected:
  "get_header [0x800000102, 0x10008, 0x5566778811223344, 0xB0] =
     Inr \<lparr>type = 2, bpp = 1, bit_count = 8, width = 8, height = 1,
          color0 = 0x11223344, color1 = 0x55667788\<rparr> \<and>
   decode_to_vector 4 [0x800000102, 0x10008, 0x5566778811223344, 0xB0] =
     Inr [[0x88, 0x77, 0x66, 0x55], [0x44, 0x33, 0x22, 0x11], [0x88, 0x77, 0x66, 0x55],
          [0x88, 0x77, 0x66, 0x55], [0x44, 0x33, 0x22, 0x11], [0x44, 0x33, 0x22, 0x11],
          [0x44, 0x33, 0x22, 0x11], [0x44, 0x33, 0x22, 0x11]] \<and>
   decode_into_pointer 4 [0x800000102, 0x10008, 0x5566778811223344, 0xB0]
       (replicate 8 [0, 0, 0, 0]) =
     Inr [[0x88, 0x77, 0x66, 0x55], [0x44, 0x33, 0x22, 0x11], [0x88, 0x77, 0x66, 0x55],
          [0x88, 0x77, 0x66, 0x55], [0x44, 0x33, 0x22, 0x11], [0x44, 0x33, 0x22, 0x11],
          [0x44, 0x33, 0x22, 0x11], [0x44, 0x33, 0x22, 0x11]] \<and>
   decode_to_array_default 4 4
       \<lparr>type = 2, bpp = 1, bit_count = 8, width = 8, height = 1,
        color0 = 0x11223344, color1 = 0x55667788\<rparr>
       [0x800000102, 0x10008, 0x5566778811223344, 0xB0] =
     Inl (Static_assert ''User type has different size than bpp'')"
  by code_simp

section \<open>Index-plane byte count\<close>

text \<open>
  Claim C8. For every bit count \<open>n \<ge> 0\<close> the byte count of the index plane computed
  by \<open>get_byte_count_from_bit_count\<close> is the ceiling of \<open>n / 8\<close>: a bit count that is
  not a multiple of 8 rounds up to the next whole byte, a multiple of 8 gives exactly
  \<open>n / 8\<close>, and 0 bits give 0 bytes.
\<close>

theorem byte_count_is_ceiling:
  assumes "0 \<le> n"
  shows "get_byte_count_from_bit_count n = \<lceil>real_of_int n / 8\<rceil> \<and>
         (n mod 8 \<noteq> 0 \<longrightarrow> get_byte_count_from_bit_count n = n div 8 + 1) \<and>
         (n mod 8 = 0 \<longrightarrow> get_byte_count_from_bit_count n = n div 8) \<and>
         get_byte_count_from_bit_count 0 = 0"
proof -
  have d: "n sdiv 8 = n div 8" and m: "n smod 8 = n mod 8"
    using assms by (simp_all add: sdiv_nonneg smod_nonneg)
  have g: "get_byte_count_from_bit_count n = (if 0 < n mod 8 then n div 8 + 1 else n div 8)"
    by (simp add: get_byte_count_from_bit_count_def Let_def d m)
  have z: "get_byte_count_from_bit_count 0 = 0"
    by (simp add: get_byte_count_from_bit_count_def Let_def sdiv_nonneg smod_nonneg)
  have c: "(n + 7) div 8 = (if 0 < n mod 8 then n div 8 + 1 else n div 8)"
    by presburger
  have p: "n mod 8 \<noteq> 0 \<longleftrightarrow> 0 < n mod 8"
    by presburger
  show ?thesis
    unfolding ceiling_eighth p using g c z by simp
qed

theorem byte_count_is_ceiling_witness:
  "get_byte_count_from_bit_count 13 = 2 \<and> get_byte_count_from_bit_count 16 = 2 \<and>
   get_byte_count_from_bit_count 0 = 0"
  using byte_count_is_ceiling [of 13] byte_count_is_ceiling [of 16] by simp

end
